theory Spec2Isabelle
  imports Complex_Main
begin

section \<open>Damped harmonic oscillator: solver, transfer-function analysis, stability label\<close>

text \<open>
  The three source files are \<^verbatim>\<open>oscillator_solver.py\<close>, \<^verbatim>\<open>laplace_analysis.py\<close> and
  \<^verbatim>\<open>app.py\<close>. Python floats are modelled as follows: a finite float64 is a real number
  (rounding is not modelled), and the three IEEE special values that numpy produces
  instead of raising (division by zero, logarithm of zero or of a negative number) are
  kept as values of their own. The sign of zero is not modelled. The range of float64 is
  modelled for the one product of the program that feeds a logarithm (\<open>F0 * omega\<close>), and
  not inside the library calls.
\<close>

subsection \<open>Float values and numpy scalar arithmetic\<close>

datatype fl = Fin real | PInf | NInf | NaN

datatype error = ValueError | IndexError | NotModelled


fun fl_neg :: "fl \<Rightarrow> fl" where
  "fl_neg (Fin a) = Fin (- a)"
| "fl_neg PInf = NInf"
| "fl_neg NInf = PInf"
| "fl_neg NaN = NaN"

fun fl_add :: "fl \<Rightarrow> fl \<Rightarrow> fl" where
  "fl_add (Fin a) (Fin b) = Fin (a + b)"
| "fl_add NaN _ = NaN"
| "fl_add _ NaN = NaN"
| "fl_add PInf NInf = NaN"
| "fl_add NInf PInf = NaN"
| "fl_add PInf _ = PInf"
| "fl_add _ PInf = PInf"
| "fl_add NInf _ = NInf"
| "fl_add _ NInf = NInf"

definition fl_sub :: "fl \<Rightarrow> fl \<Rightarrow> fl" where
  "fl_sub a b = fl_add a (fl_neg b)"

text \<open>The sign of a float as numpy's \<^verbatim>\<open>sign\<close> gives it; \<open>None\<close> for NaN.\<close>

fun fl_sign :: "fl \<Rightarrow> int option" where
  "fl_sign (Fin a) = Some (if a < 0 then - 1 else if a = 0 then 0 else 1)"
| "fl_sign PInf = Some 1"
| "fl_sign NInf = Some (- 1)"
| "fl_sign NaN = None"

fun fl_mul :: "fl \<Rightarrow> fl \<Rightarrow> fl" where
  "fl_mul (Fin a) (Fin b) = Fin (a * b)"
| "fl_mul a b =
     (case (fl_sign a, fl_sign b) of
        (Some sa, Some sb) \<Rightarrow>
          (if sa * sb = 0 then NaN else if sa * sb > 0 then PInf else NInf)
      | _ \<Rightarrow> NaN)"

text \<open>
  Division of numpy floats never raises: a finite non-zero value over zero is an infinity,
  zero over zero and infinity over infinity are NaN.
\<close>

fun fl_div :: "fl \<Rightarrow> fl \<Rightarrow> fl" where
  "fl_div (Fin a) (Fin b) =
     (if b \<noteq> 0 then Fin (a / b)
      else if a > 0 then PInf else if a < 0 then NInf else NaN)"
| "fl_div NaN _ = NaN"
| "fl_div _ NaN = NaN"
| "fl_div (Fin a) _ = Fin 0"
| "fl_div PInf (Fin b) = (if b < 0 then NInf else PInf)"
| "fl_div NInf (Fin b) = (if b < 0 then PInf else NInf)"
| "fl_div _ _ = NaN"

fun fl_abs :: "fl \<Rightarrow> fl" where
  "fl_abs (Fin a) = Fin \<bar>a\<bar>"
| "fl_abs NaN = NaN"
| "fl_abs _ = PInf"

text \<open>Comparisons with NaN are false.\<close>

fun fl_lt :: "fl \<Rightarrow> fl \<Rightarrow> bool" where
  "fl_lt (Fin a) (Fin b) = (a < b)"
| "fl_lt NaN _ = False"
| "fl_lt _ NaN = False"
| "fl_lt NInf b = (b \<noteq> NInf)"
| "fl_lt a PInf = (a \<noteq> PInf)"
| "fl_lt _ _ = False"

fun fl_eq :: "fl \<Rightarrow> fl \<Rightarrow> bool" where
  "fl_eq NaN _ = False"
| "fl_eq _ NaN = False"
| "fl_eq a b = (a = b)"

text \<open>\<^verbatim>\<open>np.log10\<close>: minus infinity at zero, NaN below zero, with a warning and no exception.\<close>

fun np_log10 :: "fl \<Rightarrow> fl" where
  "np_log10 (Fin a) = (if a > 0 then Fin (log 10 a) else if a = 0 then NInf else NaN)"
| "np_log10 PInf = PInf"
| "np_log10 _ = NaN"

text \<open>\<^verbatim>\<open>10 ** y\<close> on a float.\<close>

fun pow10 :: "fl \<Rightarrow> fl" where
  "pow10 (Fin y) = Fin (10 powr y)"
| "pow10 PInf = PInf"
| "pow10 NInf = Fin 0"
| "pow10 NaN = NaN"

fun np_sin :: "fl \<Rightarrow> fl" where
  "np_sin (Fin a) = Fin (sin a)"
| "np_sin _ = NaN"

text \<open>\<^verbatim>\<open>np.mod(a, p)\<close> for a finite positive period: the result has the sign of the period.\<close>

fun np_mod :: "fl \<Rightarrow> real \<Rightarrow> fl" where
  "np_mod (Fin a) p = (if p = 0 then NaN else Fin (a - p * of_int \<lfloor>a / p\<rfloor>))"
| "np_mod _ p = NaN"

text \<open>
  The product of two Python floats with the range of float64: an exact product of
  absolute value at least \<open>2\<^sup>1\<^sup>0\<^sup>2\<^sup>4 - 2\<^sup>9\<^sup>7\<^sup>0\<close> rounds to an infinity, one of absolute value at
  most \<open>2\<^sup>-\<^sup>1\<^sup>0\<^sup>7\<^sup>5\<close> rounds to zero (round to nearest, ties to even).
\<close>

definition float_overflow :: real where
  "float_overflow = 2 ^ 1024 - 2 ^ 970"

definition float_underflow :: real where
  "float_underflow = 1 / 2 ^ 1075"

definition py_float_mul :: "real \<Rightarrow> real \<Rightarrow> fl" where
  "py_float_mul a b =
     (let p = a * b
      in if p \<ge> float_overflow then PInf
         else if p \<le> - float_overflow then NInf
         else if \<bar>p\<bar> \<le> float_underflow then Fin 0
         else Fin p)"

text \<open>\<^verbatim>\<open>np.arctan2(y, x)\<close> and the modulus of a complex float with parts \<open>re\<close>, \<open>im\<close>.\<close>

definition arctan2 :: "real \<Rightarrow> real \<Rightarrow> real" where
  "arctan2 y x =
     (if x > 0 then arctan (y / x)
      else if x < 0 then (if y \<ge> 0 then arctan (y / x) + pi else arctan (y / x) - pi)
      else if y > 0 then pi / 2 else if y < 0 then - pi / 2 else 0)"

fun np_arctan2 :: "fl \<Rightarrow> fl \<Rightarrow> fl" where
  "np_arctan2 (Fin y) (Fin x) = Fin (arctan2 y x)"
| "np_arctan2 NaN _ = NaN"
| "np_arctan2 _ NaN = NaN"
| "np_arctan2 PInf PInf = Fin (pi / 4)"
| "np_arctan2 PInf NInf = Fin (3 * pi / 4)"
| "np_arctan2 PInf (Fin x) = Fin (pi / 2)"
| "np_arctan2 NInf PInf = Fin (- pi / 4)"
| "np_arctan2 NInf NInf = Fin (- 3 * pi / 4)"
| "np_arctan2 NInf (Fin x) = Fin (- pi / 2)"
| "np_arctan2 (Fin y) PInf = Fin 0"
| "np_arctan2 (Fin y) NInf = Fin (if y \<ge> 0 then pi else - pi)"

fun np_abs_complex :: "fl \<Rightarrow> fl \<Rightarrow> fl" where
  "np_abs_complex (Fin re) (Fin im) = Fin (sqrt (re * re + im * im))"
| "np_abs_complex PInf _ = PInf"
| "np_abs_complex NInf _ = PInf"
| "np_abs_complex _ PInf = PInf"
| "np_abs_complex _ NInf = PInf"
| "np_abs_complex _ _ = NaN"

subsection \<open>numpy array functions\<close>

text \<open>
  \<^verbatim>\<open>np.linspace(start, stop, num)\<close> with the endpoint included: a negative \<open>num\<close> raises
  ValueError; sample \<open>i\<close> is \<open>i * step + start\<close> with \<open>step = (stop - start) / (num - 1)\<close>
  (\<open>i * (stop - start) + start\<close> when \<open>num \<le> 1\<close>), and the last of two or more samples
  is set to \<open>stop\<close>. (numpy's separate branch for a zero step computes the same values in
  exact arithmetic.)
\<close>

definition np_linspace :: "fl \<Rightarrow> fl \<Rightarrow> int \<Rightarrow> error + fl list" where
  "np_linspace start stop num =
     (if num < 0 then Inl ValueError
      else
        let n = nat num;
            dv = num - 1;
            delta = fl_sub stop start;
            scale = (if dv > 0 then fl_div delta (Fin (of_int dv)) else delta);
            y = map (\<lambda>i. fl_add (fl_mul (Fin (of_nat i)) scale) start) [0..<n]
        in Inr (if num > 1 then y[n - 1 := stop] else y))"

text \<open>\<^verbatim>\<open>np.logspace(start, stop, num)\<close> is \<^verbatim>\<open>10 ** np.linspace(start, stop, num)\<close>.\<close>

definition np_logspace :: "fl \<Rightarrow> fl \<Rightarrow> int \<Rightarrow> error + fl list" where
  "np_logspace start stop num =
     (case np_linspace start stop num of
        Inl e \<Rightarrow> Inl e
      | Inr y \<Rightarrow> Inr (map pow10 y))"

text \<open>
  \<^verbatim>\<open>np.roots(p)\<close>: an all-zero (or empty) coefficient list has no roots; leading and
  trailing zeros are stripped, each trailing one adding a root 0; the remaining roots are
  the eigenvalues of the companion matrix built from the coefficients divided by the
  leading one. The eigenvalues are written out for one and two of them, in the order in
  which LAPACK returns those of a two-by-two matrix: of two real eigenvalues the one of
  larger absolute value first (the positive one when they are opposite), of a conjugate
  pair the one with positive imaginary part first. Polynomials of degree three and more
  do not occur in this program and are not modelled.
\<close>

fun companion_eigvals :: "real list \<Rightarrow> complex list option" where
  "companion_eigvals [] = Some []"
| "companion_eigvals [a] = Some []"
| "companion_eigvals [a, b] = Some [Complex (- b / a) 0]"
| "companion_eigvals [a, b, c] =
     (let p = b / a; q = c / a; d = p * p - 4 * q
      in if d \<ge> 0
         then (if p > 0
               then Some [Complex ((- p - sqrt d) / 2) 0, Complex ((- p + sqrt d) / 2) 0]
               else Some [Complex ((- p + sqrt d) / 2) 0, Complex ((- p - sqrt d) / 2) 0])
         else Some [Complex (- p / 2) (sqrt (- d) / 2), Complex (- p / 2) (- sqrt (- d) / 2)])"
| "companion_eigvals _ = None"

definition np_roots :: "real list \<Rightarrow> error + complex list" where
  "np_roots p =
     (if list_all (\<lambda>a. a = 0) p then Inr []
      else
        let trailing_zeros = length (takeWhile (\<lambda>a. a = 0) (rev p));
            q = dropWhile (\<lambda>a. a = 0) (take (length p - trailing_zeros) p)
        in case companion_eigvals q of
             None \<Rightarrow> Inl NotModelled
           | Some r \<Rightarrow> Inr (r @ replicate trailing_zeros 0))"

text \<open>\<^verbatim>\<open>np.polyval(p, x)\<close>: Horner's scheme from the leading coefficient.\<close>

definition polyval :: "real list \<Rightarrow> complex \<Rightarrow> complex" where
  "polyval p x = foldl (\<lambda>y pv. y * x + of_real pv) 0 p"

fun np_diff :: "fl list \<Rightarrow> fl list" where
  "np_diff (a # b # xs) = fl_sub b a # np_diff (b # xs)"
| "np_diff _ = []"

fun np_cumsum_from :: "fl \<Rightarrow> fl list \<Rightarrow> fl list" where
  "np_cumsum_from acc [] = []"
| "np_cumsum_from acc (x # xs) = fl_add acc x # np_cumsum_from (fl_add acc x) xs"

definition np_cumsum :: "fl list \<Rightarrow> fl list" where
  "np_cumsum xs = (case xs of [] \<Rightarrow> [] | x # rest \<Rightarrow> x # np_cumsum_from x rest)"

text \<open>
  \<^verbatim>\<open>np.unwrap(p)\<close> with period \<open>2\<pi>\<close>: each jump \<open>dd\<close> between neighbours is reduced to
  \<open>[-\<pi>, \<pi>)\<close> (to \<open>\<pi>\<close> when it is an upward jump that lands on \<open>-\<pi>\<close>); the correction is
  zero where \<open>|dd| < \<pi>\<close>; the corrections are accumulated and added from the second
  sample on.
\<close>

definition unwrap_correction :: "fl \<Rightarrow> fl" where
  "unwrap_correction dd =
     (let ddmod0 = fl_add (np_mod (fl_sub dd (Fin (- pi))) (2 * pi)) (Fin (- pi));
          ddmod = (if fl_eq ddmod0 (Fin (- pi)) \<and> fl_lt (Fin 0) dd then Fin pi else ddmod0);
          ph_correct = fl_sub ddmod dd
      in if fl_lt (fl_abs dd) (Fin pi) then Fin 0 else ph_correct)"

definition np_unwrap :: "fl list \<Rightarrow> fl list" where
  "np_unwrap p =
     (case p of
        [] \<Rightarrow> []
      | p0 # rest \<Rightarrow>
          p0 # map (\<lambda>(a, b). fl_add a b)
                 (zip rest (np_cumsum (map unwrap_correction (np_diff p)))))"

subsection \<open>scipy.signal: transfer function and Bode data\<close>

text \<open>
  \<^verbatim>\<open>signal.TransferFunction(num, den)\<close> stores the normalised coefficients
  (\<^verbatim>\<open>scipy.signal.normalize\<close>): an all-zero denominator raises ValueError; leading zeros of
  the denominator are dropped; both lists are divided by the denominator's leading
  coefficient; leading numerator coefficients within \<open>10\<^sup>-\<^sup>1\<^sup>4\<close> of zero are dropped, but
  one coefficient always remains.
\<close>

record lti =
  tf_num :: "real list"
  tf_den :: "real list"

definition TransferFunction :: "real list \<Rightarrow> real list \<Rightarrow> error + lti" where
  "TransferFunction numerator denominator =
     (case dropWhile (\<lambda>a. a = 0) denominator of
        [] \<Rightarrow> Inl ValueError
      | a0 # rest \<Rightarrow>
          let nm = map (\<lambda>b. b / a0) numerator;
              dn = map (\<lambda>a. a / a0) (a0 # rest);
              leading_zeros = length (takeWhile (\<lambda>b. \<bar>b\<bar> \<le> 1 / 10 ^ 14) nm);
              trim = (if 0 < leading_zeros \<and> leading_zeros = length nm
                      then leading_zeros - 1 else leading_zeros)
          in Inr \<lparr>tf_num = drop trim nm, tf_den = dn\<rparr>)"

text \<open>
  \<^verbatim>\<open>signal.freqs(b, a, worN=w)\<close> at one sample: \<open>s = 1j * w\<close>, then
  \<^verbatim>\<open>polyval(b, s) / polyval(a, s)\<close>, returned as the pair of its real and imaginary parts.
  A complex division by zero does not raise in numpy: each part of the numerator is
  divided by zero as a float. A sample frequency that is not finite gives NaN in both
  parts.
\<close>

fun freqs :: "real list \<Rightarrow> real list \<Rightarrow> fl \<Rightarrow> fl \<times> fl" where
  "freqs b a (Fin w) =
     (let s = Complex 0 w; nb = polyval b s; na = polyval a s
      in if na \<noteq> 0 then (Fin (Re (nb / na)), Fin (Im (nb / na)))
         else (fl_div (Fin (Re nb)) (Fin 0), fl_div (Fin (Im nb)) (Fin 0)))"
| "freqs b a _ = (NaN, NaN)"

text \<open>
  \<^verbatim>\<open>signal.bode(sys, w=frequencies)\<close> returns the frequencies as given,
  \<^verbatim>\<open>20 * log10(abs(y))\<close> and \<^verbatim>\<open>unwrap(arctan2(y.imag, y.real)) * 180 / pi\<close>.
\<close>

definition bode :: "lti \<Rightarrow> fl list \<Rightarrow> fl list \<times> fl list \<times> fl list" where
  "bode sys w =
     (let y = map (freqs (tf_num sys) (tf_den sys)) w;
          mag = map (\<lambda>(re, im). fl_mul (Fin 20) (np_log10 (np_abs_complex re im))) y;
          phase = map (\<lambda>a. fl_div (fl_mul a (Fin 180)) (Fin pi))
                      (np_unwrap (map (\<lambda>(re, im). np_arctan2 im re) y))
      in (w, mag, phase))"

subsection \<open>Frequency response analysis (\<^verbatim>\<open>laplace_analysis.py\<close>)\<close>

text \<open>
  \<^verbatim>\<open>calculate_laplace_transform(m, c, k, F0, omega, max_freq=100, num_points=1000)\<close>
  returns the tuple \<open>(w, forced_magnitude, phase, poles, zeros)\<close>. The function has no
  check of its own on any argument; the errors it can end with are those of the library
  calls, in the order of the calls.
\<close>

definition calculate_laplace_transform ::
  "real \<Rightarrow> real \<Rightarrow> real \<Rightarrow> real \<Rightarrow> real \<Rightarrow> real \<Rightarrow> int \<Rightarrow>
     error + (fl list \<times> fl list \<times> fl list \<times> complex list \<times> complex list)" where
  "calculate_laplace_transform m c k F0 omega max_freq num_points =
     (let numerator = [1]; denominator = [m, c, k] in
      case TransferFunction numerator denominator of
        Inl e \<Rightarrow> Inl e
      | Inr sys \<Rightarrow>
      (case np_roots denominator of
        Inl e \<Rightarrow> Inl e
      | Inr poles \<Rightarrow>
      (case np_roots numerator of
        Inl e \<Rightarrow> Inl e
      | Inr zeros \<Rightarrow>
      (case np_logspace (Fin (- 2)) (np_log10 (Fin max_freq)) num_points of
        Inl e \<Rightarrow> Inl e
      | Inr frequencies \<Rightarrow>
          (case bode sys frequencies of
             (w, mag, phase) \<Rightarrow>
               let forced_magnitude =
                     map (\<lambda>x. fl_add x (fl_mul (Fin 20) (np_log10 (py_float_mul F0 omega))))
                         mag
               in Inr (w, forced_magnitude, phase, poles, zeros))))))"

text \<open>The call of \<^verbatim>\<open>app.py\<close>, line 201, which leaves the two defaults in place.\<close>

definition analyze_default ::
  "real \<Rightarrow> real \<Rightarrow> real \<Rightarrow> real \<Rightarrow> real \<Rightarrow>
     error + (fl list \<times> fl list \<times> fl list \<times> complex list \<times> complex list)" where
  "analyze_default m c k F0 omega = calculate_laplace_transform m c k F0 omega 100 1000"

text \<open>Components of a returned tuple; an error has none.\<close>

definition frequencies_of ::
  "error + (fl list \<times> fl list \<times> fl list \<times> complex list \<times> complex list) \<Rightarrow> fl list option" where
  "frequencies_of r = (case r of Inl e \<Rightarrow> None | Inr (w, mg, ph, ps, zs) \<Rightarrow> Some w)"


definition poles_of ::
  "error + (fl list \<times> fl list \<times> fl list \<times> complex list \<times> complex list) \<Rightarrow> complex list option" where
  "poles_of r = (case r of Inl e \<Rightarrow> None | Inr (w, mg, ph, ps, zs) \<Rightarrow> Some ps)"

subsection \<open>The homogeneous response as the specification words it\<close>





subsection \<open>Trajectory solver (\<^verbatim>\<open>oscillator_solver.py\<close>)\<close>

text \<open>
  \<^verbatim>\<open>damped_oscillator_ode(t, y, m, c, k, F0, omega)\<close>: \<^verbatim>\<open>x, v = y\<close> raises ValueError
  unless \<open>y\<close> has two entries; the division by \<open>m\<close> is a numpy float division.
\<close>

definition damped_oscillator_ode ::
  "fl \<Rightarrow> fl list \<Rightarrow> real \<Rightarrow> real \<Rightarrow> real \<Rightarrow> real \<Rightarrow> real \<Rightarrow> error + fl list" where
  "damped_oscillator_ode t y m c k F0 omega =
     (case y of
        [x, v] \<Rightarrow>
          let dxdt = v;
              dvdt = fl_div
                       (fl_sub (fl_sub (fl_mul (Fin F0) (np_sin (fl_mul (Fin omega) t)))
                                       (fl_mul (Fin c) v))
                               (fl_mul (Fin k) x))
                       (Fin m)
          in Inr [dxdt, dvdt]
      | _ \<Rightarrow> Inl ValueError)"

text \<open>
  \<^verbatim>\<open>scipy.integrate.solve_ivp\<close> is not part of the repository. The solver takes it as a
  parameter: a function of the right-hand side, the time span, the initial state, the
  requested output times and the options, which raises or returns an object with fields
  \<open>t\<close>, \<open>y\<close> (a list of rows) and \<open>status\<close>. The solver function reads \<open>t\<close> and the first
  two rows of \<open>y\<close>; it does not read the status.
\<close>

record ivp_options =
  ode_method :: string
  rtol :: real
  atol :: real
  dense_output :: bool

record ode_result =
  sol_t :: "fl list"
  sol_y :: "fl list list"
  sol_status :: int

type_synonym rhs = "fl \<Rightarrow> fl list \<Rightarrow> error + fl list"

type_synonym ivp_solver =
  "rhs \<Rightarrow> real \<times> real \<Rightarrow> fl list \<Rightarrow> fl list \<Rightarrow> ivp_options \<Rightarrow> error + ode_result"

text \<open>Row \<open>i\<close> of a two-dimensional array; IndexError when there is no such row.\<close>

definition row :: "fl list list \<Rightarrow> nat \<Rightarrow> error + fl list" where
  "row a i = (if i < length a then Inr (a ! i) else Inl IndexError)"

definition solve_damped_oscillator ::
  "ivp_solver \<Rightarrow> real \<Rightarrow> real \<Rightarrow> real \<Rightarrow> real \<Rightarrow> real \<Rightarrow> real \<Rightarrow> real \<Rightarrow> real \<Rightarrow> int \<Rightarrow>
     error + (fl list \<times> fl list \<times> fl list)" where
  "solve_damped_oscillator solve_ivp m c k F0 omega x0 v0 t_max num_points =
     (case np_linspace (Fin 0) (Fin t_max) num_points of
        Inl e \<Rightarrow> Inl e
      | Inr t_eval \<Rightarrow>
      (case solve_ivp (\<lambda>t y. damped_oscillator_ode t y m c k F0 omega)
                      (0, t_max) [Fin x0, Fin v0] t_eval
                      \<lparr>ode_method = ''RK45'', rtol = 1 / 10 ^ 8, atol = 1 / 10 ^ 10,
                       dense_output = True\<rparr> of
        Inl e \<Rightarrow> Inl e
      | Inr sol \<Rightarrow>
      (case row (sol_y sol) 0 of
        Inl e \<Rightarrow> Inl e
      | Inr x \<Rightarrow>
      (case row (sol_y sol) 1 of
        Inl e \<Rightarrow> Inl e
      | Inr v \<Rightarrow> Inr (sol_t sol, x, v)))))"

text \<open>
  A reference integrator, used to run the solver on concrete inputs: the explicit Euler
  method stepping from one requested output time to the next. It returns the state at
  every requested time, with status 0.
\<close>

fun euler_states :: "rhs \<Rightarrow> fl \<Rightarrow> fl list \<Rightarrow> fl list \<Rightarrow> error + fl list list" where
  "euler_states f t y [] = Inr []"
| "euler_states f t y (t' # ts) =
     (case f t y of
        Inl e \<Rightarrow> Inl e
      | Inr d \<Rightarrow>
          if length d \<noteq> length y then Inl ValueError
          else
            let y' = map (\<lambda>(yi, di). fl_add yi (fl_mul (fl_sub t' t) di)) (zip y d)
            in case euler_states f t' y' ts of
                 Inl e \<Rightarrow> Inl e
               | Inr rest \<Rightarrow> Inr (y' # rest))"

definition euler_ivp :: ivp_solver where
  "euler_ivp f t_span y0 t_eval opts =
     (case euler_states f (Fin (fst t_span)) y0 t_eval of
        Inl e \<Rightarrow> Inl e
      | Inr states \<Rightarrow>
          Inr \<lparr>sol_t = t_eval,
               sol_y = map (\<lambda>j. map (\<lambda>st. st ! j) states) [0..<length y0],
               sol_status = 0\<rparr>)"


text \<open>The lengths of the three returned arrays; an error has none.\<close>

definition lengths_of ::
  "error + (fl list \<times> fl list \<times> fl list) \<Rightarrow> (nat \<times> nat \<times> nat) option" where
  "lengths_of r =
     (case r of Inl e \<Rightarrow> None | Inr (t, x, v) \<Rightarrow> Some (length t, length x, length v))"

subsection \<open>Stability label (\<^verbatim>\<open>app.py\<close>, lines 282 to 284)\<close>

text \<open>
  \<^verbatim>\<open>real_parts = np.real(poles)\<close>, then
  \<^verbatim>\<open>"STABLE" if np.all(real_parts < 0) else "MARGINALLY STABLE" if np.any(real_parts == 0) else "UNSTABLE"\<close>.
\<close>

definition system_status :: "complex list \<Rightarrow> string" where
  "system_status poles =
     (let real_parts = map Re poles in
      if list_all (\<lambda>r. r < 0) real_parts then ''STABLE''
      else if list_ex (\<lambda>r. r = 0) real_parts then ''MARGINALLY STABLE''
      else ''UNSTABLE'')"

section \<open>Properties\<close>

subsection \<open>Library functions\<close>

lemma np_linspace_fin:
  assumes "2 \<le> n"
  shows "np_linspace (Fin a) (Fin b) n =
     Inr (map (\<lambda>i. Fin (if i = nat n - 1 then b else of_nat i * ((b - a) / of_int (n - 1)) + a))
              [0..<nat n])"
proof -
  have "(map (\<lambda>i. fl_add (fl_mul (Fin (of_nat i))
                               (fl_div (fl_sub (Fin b) (Fin a)) (Fin (of_int (n - 1)))))
                       (Fin a)) [0..<nat n])[nat n - 1 := Fin b]
      = map (\<lambda>i. Fin (if i = nat n - 1 then b else of_nat i * ((b - a) / of_int (n - 1)) + a))
            [0..<nat n]"
    using assms by (intro nth_equalityI) (auto simp: fl_sub_def nth_list_update)
  then show ?thesis using assms by (simp add: np_linspace_def Let_def)
qed

lemma np_linspace_length: "np_linspace a b n = Inr ys \<Longrightarrow> length ys = nat n"
  by (auto simp: np_linspace_def Let_def split: if_splits)

lemma np_linspace_ok: "0 \<le> n \<Longrightarrow> \<exists>ys. np_linspace a b n = Inr ys"
  by (auto simp: np_linspace_def Let_def)

lemma np_logspace_ok: "0 \<le> n \<Longrightarrow> \<exists>fs. np_logspace a b n = Inr fs"
  using np_linspace_ok[of n a b] by (auto simp: np_logspace_def)

lemma np_roots_one: "np_roots [1] = Inr []"
  by (simp add: np_roots_def)

lemma np_roots_mass:
  "m \<noteq> 0 \<Longrightarrow> \<exists>ps. np_roots [m, c, k] = Inr ps \<and> length ps = 2"
  by (auto simp: np_roots_def Let_def)

lemma np_roots_nonzero:
  "m \<noteq> 0 \<Longrightarrow> k \<noteq> 0 \<Longrightarrow> np_roots [m, c, k] = Inr ps \<Longrightarrow>
     companion_eigvals [m, c, k] = Some ps"
  by (auto simp: np_roots_def Let_def split: option.splits)


lemma TransferFunction_ok:
  "m \<noteq> 0 \<or> c \<noteq> 0 \<or> k \<noteq> 0 \<Longrightarrow> \<exists>sys. TransferFunction [1] [m, c, k] = Inr sys"
  by (auto simp: TransferFunction_def Let_def)

lemma TransferFunction_zero: "TransferFunction [1] [0, 0, 0] = Inl ValueError"
  by (simp add: TransferFunction_def)

lemma np_logspace_fin:
  assumes "2 \<le> n" "0 < mf"
  shows "np_logspace (Fin (- 2)) (np_log10 (Fin mf)) n =
     Inr (map (\<lambda>i. Fin (if i = nat n - 1 then mf
                         else 10 powr (of_nat i * ((log 10 mf + 2) / of_int (n - 1)) - 2)))
              [0..<nat n])"
  using assms by (simp add: np_logspace_def np_linspace_fin o_def if_distrib cong: if_cong)










subsection \<open>The two eigenvalues are the roots of the quadratic\<close>

lemma monic_factor:
  fixes p q :: real and s :: complex
  assumes "companion_eigvals [1, p, q] = Some [r1, r2]"
  shows "s * s + of_real p * s + of_real q = (s - r1) * (s - r2)"
proof (cases "p * p - 4 * q \<ge> 0")
  case True
  define e where "e = sqrt (p * p - 4 * q)"
  have ee: "e * e = p * p - 4 * q" using True by (simp add: e_def)
  have q: "q = (p * p - e * e) / 4" using ee by simp
  show ?thesis
  proof (cases "p > 0")
    case True
    have r: "r1 = Complex ((- p - e) / 2) 0" "r2 = Complex ((- p + e) / 2) 0"
      using assms \<open>p * p - 4 * q \<ge> 0\<close> True by (simp_all add: Let_def e_def)
    show ?thesis unfolding r using q
      by (simp add: complex_eq_iff field_simps)
  next
    case False
    have r: "r1 = Complex ((- p + e) / 2) 0" "r2 = Complex ((- p - e) / 2) 0"
      using assms \<open>p * p - 4 * q \<ge> 0\<close> False by (simp_all add: Let_def e_def)
    show ?thesis unfolding r using q
      by (simp add: complex_eq_iff field_simps)
  qed
next
  case False
  define e where "e = sqrt (- (p * p - 4 * q))"
  have ee: "e * e = 4 * q - p * p" using False by (simp add: e_def)
  have r: "r1 = Complex (- p / 2) (e / 2)" "r2 = Complex (- p / 2) (- e / 2)"
    using assms False by (simp_all add: Let_def e_def)
  have "q = (p * p + e * e) / 4" using ee by simp
  then show ?thesis unfolding r
    by (simp add: complex_eq_iff field_simps)
qed

lemma companion_eigvals_scale:
  "a \<noteq> 0 \<Longrightarrow> companion_eigvals [a, b, c] = companion_eigvals [1, b / a, c / a]"
  by (simp add: Let_def)

lemma companion_eigvals_two:
  "a \<noteq> 0 \<Longrightarrow> \<exists>r1 r2. companion_eigvals [a, b, c] = Some [r1, r2]"
  by (simp add: Let_def)

lemma quadratic_factor:
  fixes a b c :: real and s :: complex
  assumes "a \<noteq> 0" "companion_eigvals [a, b, c] = Some [r1, r2]"
  shows "of_real a * s\<^sup>2 + of_real b * s + of_real c = of_real a * ((s - r1) * (s - r2))"
proof -
  have "companion_eigvals [1, b / a, c / a] = Some [r1, r2]"
    using assms companion_eigvals_scale by simp
  from monic_factor[OF this, of s]
  have "(s - r1) * (s - r2) = s * s + of_real (b / a) * s + of_real (c / a)" by simp
  then show ?thesis using assms(1)
    by (simp add: power2_eq_square field_simps)
qed

lemma np_roots_are_roots:
  fixes m c k :: real
  assumes "m \<noteq> 0" "np_roots [m, c, k] = Inr ps"
  shows "\<forall>p \<in> set ps. of_real m * p\<^sup>2 + of_real c * p + of_real k = 0"
proof (cases "k = 0")
  case False
  then have ce: "companion_eigvals [m, c, k] = Some ps"
    using np_roots_nonzero assms by simp
  obtain r1 r2 where r: "ps = [r1, r2]"
    using companion_eigvals_two[of m c k] ce assms by auto
  show ?thesis unfolding r
    using quadratic_factor[of m c k r1 r2] ce r assms by simp
next
  case True
  show ?thesis
  proof (cases "c = 0")
    case True
    with \<open>k = 0\<close> assms have "ps = [0, 0]"
      by (simp add: np_roots_def Let_def numeral_2_eq_2)
    then show ?thesis using \<open>k = 0\<close> True by simp
  next
    case False
    with \<open>k = 0\<close> assms have "ps = [Complex (- c / m) 0, 0]"
      by (simp add: np_roots_def Let_def)
    then show ?thesis using \<open>k = 0\<close> assms(1)
      by (simp add: complex_eq_iff power2_eq_square field_simps)
  qed
qed

lemma np_roots_massless:
  "c \<noteq> 0 \<Longrightarrow> np_roots [0, c, k] = Inr (if k = 0 then [0] else [Complex (- k / c) 0])"
  by (simp add: np_roots_def Let_def)

subsection \<open>Where the poles of a physical system lie\<close>

lemma underdamped_poles:
  fixes m c k :: real
  assumes "0 < m" "0 \<le> c" "0 < k" "c * c \<le> 4 * m * k"
      and "companion_eigvals [m, c, k] = Some ps"
  shows "\<forall>p \<in> set ps. Re p = - c / (2 * m)"
proof (cases "c * c = 4 * m * k")
  case True
  then have "(c / m) * (c / m) - 4 * (k / m) = 0"
    using assms(1) by (simp add: field_simps)
  then have "companion_eigvals [m, c, k]
               = Some [Complex (- (c / m) / 2) 0, Complex (- (c / m) / 2) 0]"
    using assms(1) by (simp add: Let_def)
  then show ?thesis using assms by auto
next
  case False
  then have "c * c < 4 * m * k" using assms by simp
  then have "(c / m) * (c / m) - 4 * (k / m) < 0"
    using assms(1) by (simp add: field_simps)
  then show ?thesis using assms by (auto simp: Let_def)
qed

lemma poles_left_half_plane:
  fixes m c k :: real
  assumes "0 < m" "0 \<le> c" "0 < k"
      and "companion_eigvals [m, c, k] = Some ps"
  shows "(\<forall>p \<in> set ps. Re p \<le> 0) \<and> (0 < c \<longrightarrow> (\<forall>p \<in> set ps. Re p < 0))
         \<and> (c = 0 \<longrightarrow> (\<forall>p \<in> set ps. Re p = 0)) \<and> ps \<noteq> []"
proof -
  define p where "p = c / m"
  define q where "q = k / m"
  have pq: "0 \<le> p" "0 < q" "(p = 0) = (c = 0)" using assms by (simp_all add: p_def q_def)
  show ?thesis
  proof (cases "p * p - 4 * q \<ge> 0")
    case True
    define e where "e = sqrt (p * p - 4 * q)"
    have "p * p - 4 * q < p * p" using pq by simp
    then have "sqrt (p * p - 4 * q) < sqrt (p * p)" by (simp only: real_sqrt_less_iff)
    then have lt: "e < p" using pq by (simp add: e_def)
    have ge: "0 \<le> e" using True by (simp add: e_def)
    have "0 < p" by (rule le_less_trans[OF ge lt])
    then have "c \<noteq> 0" using pq by simp
    have ps: "ps = [Complex ((- p - e) / 2) 0, Complex ((- p + e) / 2) 0]"
      using assms(1,4) True \<open>0 < p\<close> by (simp add: Let_def p_def q_def e_def)
    show ?thesis unfolding ps using lt ge \<open>c \<noteq> 0\<close> by auto
  next
    case False
    have ps: "ps = [Complex (- p / 2) (sqrt (- (p * p - 4 * q)) / 2),
                    Complex (- p / 2) (- sqrt (- (p * p - 4 * q)) / 2)]"
      using assms(1,4) False by (simp add: Let_def p_def q_def)
    show ?thesis unfolding ps using pq by auto
  qed
qed

lemma system_status_stable:
  "(\<forall>p \<in> set ps. Re p < 0) \<Longrightarrow> system_status ps = ''STABLE''"
  by (simp add: system_status_def list_all_iff)

lemma system_status_marginal:
  "ps \<noteq> [] \<Longrightarrow> (\<forall>p \<in> set ps. Re p = 0) \<Longrightarrow> system_status ps = ''MARGINALLY STABLE''"
  by (cases ps) (auto simp add: system_status_def list_all_iff list_ex_iff)

subsection \<open>The normalised transfer function against the specification's\<close>









subsection \<open>The analysis function unfolded\<close>

lemma analyze_unfold:
  assumes "TransferFunction [1] [m, c, k] = Inr sys"
      and "np_roots [m, c, k] = Inr ps"
      and "np_logspace (Fin (- 2)) (np_log10 (Fin max_freq)) n = Inr fs"
  shows "calculate_laplace_transform m c k F0 omega max_freq n =
           Inr (fs,
                map (\<lambda>x. fl_add x (fl_mul (Fin 20) (np_log10 (py_float_mul F0 omega))))
                    (fst (snd (bode sys fs))),
                snd (snd (bode sys fs)), ps, [])"
  using assms
  by (simp add: calculate_laplace_transform_def np_roots_one bode_def Let_def)

lemma analyze_poles_of:
  assumes "m \<noteq> 0 \<or> c \<noteq> 0 \<or> k \<noteq> 0" "0 \<le> n" "np_roots [m, c, k] = Inr ps"
  shows "poles_of (calculate_laplace_transform m c k F0 omega max_freq n) = Some ps"
proof -
  from assms obtain sys where sys: "TransferFunction [1] [m, c, k] = Inr sys"
    using TransferFunction_ok[of m c k] by auto
  from assms obtain fs where
    fs: "np_logspace (Fin (- 2)) (np_log10 (Fin max_freq)) n = Inr fs"
    using np_logspace_ok by blast
  show ?thesis using analyze_unfold[OF sys assms(3) fs] by (simp add: poles_of_def)
qed

lemma analyze_frequencies_of:
  assumes "m \<noteq> 0 \<or> c \<noteq> 0 \<or> k \<noteq> 0"
      and "np_logspace (Fin (- 2)) (np_log10 (Fin max_freq)) n = Inr fs"
  shows "frequencies_of (calculate_laplace_transform m c k F0 omega max_freq n) = Some fs"
proof -
  from assms obtain sys where sys: "TransferFunction [1] [m, c, k] = Inr sys"
    using TransferFunction_ok[of m c k] by auto
  have "\<exists>ps. np_roots [m, c, k] = Inr ps"
    by (auto simp: np_roots_def Let_def)
  then obtain ps where ps: "np_roots [m, c, k] = Inr ps" by blast
  show ?thesis using analyze_unfold[OF sys ps assms(2)] by (simp add: frequencies_of_def)
qed


subsection \<open>The forcing term and the samples of the analysis\<close>




















subsection \<open>The solver and its integrator\<close>


lemma euler_states_length:
  "euler_states f t y ts = Inr states \<Longrightarrow> length states = length ts"
proof (induction ts arbitrary: t y states)
  case Nil
  then show ?case by simp
next
  case (Cons t' ts)
  from Cons.prems obtain d rest where
    "f t y = Inr d" "length d = length y"
    "euler_states f t' (map (\<lambda>(yi, di). fl_add yi (fl_mul (fl_sub t' t) di)) (zip y d)) ts = Inr rest"
    "states = map (\<lambda>(yi, di). fl_add yi (fl_mul (fl_sub t' t) di)) (zip y d) # rest"
    by (auto simp: Let_def split: sum.splits if_splits)
  then show ?case using Cons.IH by auto
qed

lemma euler_states_oscillator:
  "length y = 2 \<Longrightarrow>
     \<exists>states. euler_states (\<lambda>t y. damped_oscillator_ode t y m c k F0 omega) t y ts = Inr states"
proof (induction ts arbitrary: t y)
  case Nil
  show ?case by simp
next
  case (Cons t' ts)
  from Cons.prems obtain x v where y: "y = [x, v]"
    by (cases y; cases "tl y") auto
  define d where "d = [v, fl_div (fl_sub (fl_sub (fl_mul (Fin F0) (np_sin (fl_mul (Fin omega) t)))
                                       (fl_mul (Fin c) v))
                               (fl_mul (Fin k) x)) (Fin m)]"
  have ode: "damped_oscillator_ode t y m c k F0 omega = Inr d"
    by (simp add: damped_oscillator_ode_def y d_def Let_def)
  define y' where "y' = map (\<lambda>(yi, di). fl_add yi (fl_mul (fl_sub t' t) di)) (zip y d)"
  have "length y' = 2" by (simp add: y'_def y d_def)
  from Cons.IH[OF this] obtain rest where
    rest: "euler_states (\<lambda>t y. damped_oscillator_ode t y m c k F0 omega) t' y' ts = Inr rest"
    by blast
  have "length d = length y" by (simp add: d_def y)
  then show ?case using ode rest[unfolded y'_def] by (simp add: Let_def)
qed

lemma euler_call_result:
  assumes "np_linspace (Fin 0) (Fin t_max) n = Inr te"
  shows "\<exists>x v. euler_ivp (\<lambda>t y. damped_oscillator_ode t y m c k F0 omega) (0, t_max)
                  [Fin x0, Fin v0] te opts
                = Inr \<lparr>sol_t = te, sol_y = [x, v], sol_status = 0\<rparr>
               \<and> length x = nat n \<and> length v = nat n"
proof -
  obtain states where
    st: "euler_states (\<lambda>t y. damped_oscillator_ode t y m c k F0 omega) (Fin 0)
           [Fin x0, Fin v0] te = Inr states"
    using euler_states_oscillator[where y = "[Fin x0, Fin v0]" and t = "Fin 0" and ts = te
            and m = m and c = c and k = k and ?F0.0 = F0 and omega = omega]
    by auto
  have "length states = length te" using st by (rule euler_states_length)
  moreover have "length te = nat n" using assms by (rule np_linspace_length)
  ultimately show ?thesis using st
    by (simp add: euler_ivp_def upt_rec)
qed

lemma solve_with_euler_lengths:
  assumes "0 \<le> n"
  shows "lengths_of (solve_damped_oscillator euler_ivp m c k F0 omega x0 v0 t_max n)
           = Some (nat n, nat n, nat n)"
proof -
  from assms obtain te where te: "np_linspace (Fin 0) (Fin t_max) n = Inr te"
    using np_linspace_ok by blast
  from euler_call_result[OF te] obtain x v where
    "euler_ivp (\<lambda>t y. damped_oscillator_ode t y m c k F0 omega) (0, t_max)
        [Fin x0, Fin v0] te
        \<lparr>ode_method = ''RK45'', rtol = 1 / 10 ^ 8, atol = 1 / 10 ^ 10, dense_output = True\<rparr>
       = Inr \<lparr>sol_t = te, sol_y = [x, v], sol_status = 0\<rparr>"
    "length x = nat n" "length v = nat n" by blast
  then show ?thesis using te np_linspace_length[OF te]
    by (simp add: solve_damped_oscillator_def row_def lengths_of_def)
qed



subsection \<open>Overdamped systems\<close>

lemma overdamped_poles:
  fixes m c k :: real
  assumes "0 < m" "0 \<le> c" "0 < k" "4 * m * k < c * c"
      and "companion_eigvals [m, c, k] = Some ps"
  shows "\<exists>r1 r2. ps = [Complex r1 0, Complex r2 0] \<and> r1 < r2 \<and> r2 < 0"
proof -
  define p where "p = c / m"
  define q where "q = k / m"
  define e where "e = sqrt (p * p - 4 * q)"
  have "0 < m * k" using assms(1,3) by simp
  then have "0 < c * c" using assms(4) by linarith
  then have "c \<noteq> 0" by auto
  then have pq: "0 < p" "0 < q" using assms by (simp_all add: p_def q_def)
  have d: "0 < p * p - 4 * q"
    using assms(1,4) by (simp add: p_def q_def field_simps)
  have e0: "0 < e" using d by (simp add: e_def)
  have "p * p - 4 * q < p * p" using pq by simp
  then have "sqrt (p * p - 4 * q) < sqrt (p * p)" by (simp only: real_sqrt_less_iff)
  then have lt: "e < p" using pq by (simp add: e_def)
  have "ps = [Complex ((- p - e) / 2) 0, Complex ((- p + e) / 2) 0]"
    using assms(1,5) d pq by (simp add: Let_def p_def q_def e_def)
  moreover have "(- p - e) / 2 < (- p + e) / 2" using e0 by simp
  moreover have "(- p + e) / 2 < 0" using lt by simp
  ultimately show ?thesis by blast
qed

subsection \<open>Stability label\<close>




subsection \<open>Poles and zeros\<close>

text \<open>
  Claim C4: for \<open>m > 0\<close>, \<open>c \<ge> 0\<close>, \<open>k > 0\<close> (and a sample count that numpy accepts) the
  analysis returns exactly two poles, each of them a root of \<open>m s\<^sup>2 + c s + k\<close> and every
  root of that polynomial among them, and no zeros.
\<close>

theorem analyze_poles_zeros:
  assumes "0 < m" "0 \<le> c" "0 < k" "0 \<le> num_points"
  shows "\<exists>w mg ph ps zs.
           calculate_laplace_transform m c k F0 omega max_freq num_points
             = Inr (w, mg, ph, ps, zs)
           \<and> length ps = 2
           \<and> (\<forall>p \<in> set ps. of_real m * p\<^sup>2 + of_real c * p + of_real k = 0)
           \<and> (\<forall>s. of_real m * s\<^sup>2 + of_real c * s + of_real k = 0 \<longrightarrow> s \<in> set ps)
           \<and> zs = []"
proof -
  from assms obtain sys where sys: "TransferFunction [1] [m, c, k] = Inr sys"
    using TransferFunction_ok[of m c k] by auto
  from assms obtain ps where ps: "np_roots [m, c, k] = Inr ps" "length ps = 2"
    using np_roots_mass[of m c k] by auto
  from assms obtain fs where
    fs: "np_logspace (Fin (- 2)) (np_log10 (Fin max_freq)) num_points = Inr fs"
    using np_logspace_ok by blast
  have ce: "companion_eigvals [m, c, k] = Some ps"
    using np_roots_nonzero[OF _ _ ps(1)] assms by simp
  obtain r1 r2 where r: "ps = [r1, r2]"
    using companion_eigvals_two[of m c k] ce assms by auto
  have fac: "of_real m * s\<^sup>2 + of_real c * s + of_real k = of_real m * ((s - r1) * (s - r2))"
    for s
    using quadratic_factor[of m c k r1 r2 s] ce r assms by simp
  have "\<forall>p \<in> set ps. of_real m * p\<^sup>2 + of_real c * p + of_real k = 0"
    unfolding r by (simp add: fac)
  moreover have "\<forall>s. of_real m * s\<^sup>2 + of_real c * s + of_real k = 0 \<longrightarrow> s \<in> set ps"
    unfolding r using assms(1) by (auto simp: fac)
  ultimately show ?thesis
    using analyze_unfold[OF sys ps(1) fs] ps(2) by blast
qed

theorem analyze_poles_zeros_witness:
  "(0::real) < 1 \<and> (0::real) \<le> 2 \<and> (0::real) < 10 \<and> (0::int) \<le> 1000 \<and>
   (\<exists>w mg ph ps zs.
           calculate_laplace_transform 1 2 10 10 5 100 1000 = Inr (w, mg, ph, ps, zs)
           \<and> length ps = 2
           \<and> (\<forall>p \<in> set ps. of_real 1 * p\<^sup>2 + of_real 2 * p + of_real 10 = 0)
           \<and> (\<forall>s. of_real 1 * s\<^sup>2 + of_real 2 * s + of_real 10 = 0 \<longrightarrow> s \<in> set ps)
           \<and> zs = [])"
  using analyze_poles_zeros[of 1 2 10 1000 10 5 100] by simp

text \<open>
  Claim C10 as stated fails for an overdamped system: with \<open>m = 1\<close>, \<open>c = 3\<close>, \<open>k = 2\<close>
  the poles are \<open>-2\<close> and \<open>-1\<close>, and neither real part is \<open>-c / (2 m) = -3/2\<close>.
\<close>

theorem overdamped_poles_counterexample:
  "poles_of (calculate_laplace_transform 1 3 2 10 5 100 1000)
     = Some [Complex (- 2) 0, Complex (- 1) 0]
   \<and> Re (Complex (- 2) 0) \<noteq> - 3 / (2 * 1) \<and> Re (Complex (- 1) 0) \<noteq> - 3 / (2 * 1)"
proof -
  have "np_roots [1, 3, 2] = Inr [Complex (- 2) 0, Complex (- 1) 0]"
    by (simp add: np_roots_def Let_def)
  then show ?thesis using analyze_poles_of[of 1 3 2 1000 _ 10 5 100] by simp
qed

text \<open>
  Claim C10 as amended: for \<open>m > 0\<close>, \<open>c \<ge> 0\<close>, \<open>k > 0\<close> there are two poles and every pole
  has a real part that is not positive; it equals \<open>-c / (2 m)\<close> when \<open>c\<^sup>2 \<le> 4 m k\<close>, and
  when \<open>c\<^sup>2 > 4 m k\<close> (overdamping) the two poles are distinct negative reals. The label
  is never UNSTABLE, and it is MARGINALLY STABLE exactly when \<open>c = 0\<close>.
\<close>

theorem poles_never_unstable:
  assumes "0 < m" "0 \<le> c" "0 < k" "0 \<le> num_points"
  shows "\<exists>w mg ph ps zs.
           calculate_laplace_transform m c k F0 omega max_freq num_points
             = Inr (w, mg, ph, ps, zs)
           \<and> length ps = 2
           \<and> (\<forall>p \<in> set ps. Re p \<le> 0 \<and> (c * c \<le> 4 * m * k \<longrightarrow> Re p = - c / (2 * m)))
           \<and> (4 * m * k < c * c \<longrightarrow>
                 (\<exists>r1 r2. ps = [Complex r1 0, Complex r2 0] \<and> r1 < r2 \<and> r2 < 0))
           \<and> system_status ps \<noteq> ''UNSTABLE''
           \<and> (system_status ps = ''MARGINALLY STABLE'' \<longleftrightarrow> c = 0)"
proof -
  from assms obtain sys where sys: "TransferFunction [1] [m, c, k] = Inr sys"
    using TransferFunction_ok[of m c k] by auto
  from assms obtain ps where ps: "np_roots [m, c, k] = Inr ps" "length ps = 2"
    using np_roots_mass[of m c k] by auto
  from assms obtain fs where
    fs: "np_logspace (Fin (- 2)) (np_log10 (Fin max_freq)) num_points = Inr fs"
    using np_logspace_ok by blast
  have ce: "companion_eigvals [m, c, k] = Some ps"
    using np_roots_nonzero[OF _ _ ps(1)] assms by simp
  note lhp = poles_left_half_plane[OF assms(1-3) ce]
  have st: "system_status ps = (if c = 0 then ''MARGINALLY STABLE'' else ''STABLE'')"
    using lhp assms(2) system_status_stable[of ps] system_status_marginal[of ps]
    by (cases "c = 0") auto
  have "\<forall>p \<in> set ps. Re p \<le> 0 \<and> (c * c \<le> 4 * m * k \<longrightarrow> Re p = - c / (2 * m))"
    using lhp underdamped_poles[OF assms(1-3) _ ce] by blast
  moreover have "4 * m * k < c * c \<longrightarrow>
                 (\<exists>r1 r2. ps = [Complex r1 0, Complex r2 0] \<and> r1 < r2 \<and> r2 < 0)"
    using overdamped_poles[OF assms(1-3) _ ce] by blast
  moreover have "system_status ps \<noteq> ''UNSTABLE''" by (simp add: st)
  moreover have "system_status ps = ''MARGINALLY STABLE'' \<longleftrightarrow> c = 0" by (simp add: st)
  ultimately show ?thesis
    using analyze_unfold[OF sys ps(1) fs] ps(2) by blast
qed

theorem poles_never_unstable_witness:
  "(0::real) < 1 \<and> (0::real) \<le> 3 \<and> (0::real) < 2 \<and> (0::int) \<le> 1000 \<and>
   (\<exists>w mg ph ps zs r1 r2.
           calculate_laplace_transform 1 3 2 10 5 100 1000 = Inr (w, mg, ph, ps, zs)
           \<and> length ps = 2
           \<and> ps = [Complex r1 0, Complex r2 0] \<and> r1 < r2 \<and> r2 < 0
           \<and> system_status ps \<noteq> ''UNSTABLE''
           \<and> system_status ps \<noteq> ''MARGINALLY STABLE'')"
proof -
  have h: "(0::real) < 1" "(0::real) \<le> 3" "(0::real) < 2" "(0::int) \<le> 1000" by simp_all
  from poles_never_unstable[OF h, of 10 5 100]
  show ?thesis by (intro conjI h) auto
qed

subsection \<open>No check of the mass\<close>

text \<open>
  Claim C2 as stated fails: with \<open>m = -1\<close> the analysis returns the two poles \<open>1\<close> and
  \<open>-1\<close>, and with \<open>m = 0\<close> (and \<open>c = 2\<close>, \<open>k = 10\<close>) it returns the single pole \<open>-5\<close>;
  no error is signalled in either case.
\<close>

theorem analyze_no_mass_check_counterexample:
  "poles_of (calculate_laplace_transform (- 1) 0 1 10 5 100 1000)
     = Some [Complex 1 0, Complex (- 1) 0]
   \<and> poles_of (calculate_laplace_transform 0 2 10 10 5 100 1000) = Some [Complex (- 5) 0]"
proof -
  have "np_roots [- 1, 0, 1] = Inr [Complex 1 0, Complex (- 1) 0]"
    by (simp add: np_roots_def Let_def)
  moreover have "np_roots [0, 2, 10] = Inr [Complex (- 5) 0]"
    by (simp add: np_roots_def Let_def)
  ultimately show ?thesis
    using analyze_poles_of[of "- 1" 0 1 1000 _ 10 5 100]
          analyze_poles_of[of 0 2 10 1000 _ 10 5 100] by simp
qed

text \<open>
  Claim C2 as amended: the analysis does not check the mass. For \<open>m \<le> 0\<close> and a sample
  count that numpy accepts, it fails only when all three coefficients are zero (the
  ValueError of the transfer-function constructor); otherwise it returns, with two poles
  that are roots of the denominator when \<open>m < 0\<close>, with the single pole \<open>-k / c\<close> when
  \<open>m = 0\<close> and \<open>c \<noteq> 0\<close>, and with no pole when \<open>m = c = 0\<close>.
\<close>

theorem analyze_nonpositive_mass:
  assumes "m \<le> 0" "0 \<le> num_points"
  shows "(m = 0 \<and> c = 0 \<and> k = 0 \<longrightarrow>
            calculate_laplace_transform m c k F0 omega max_freq num_points = Inl ValueError)
       \<and> (m \<noteq> 0 \<or> c \<noteq> 0 \<or> k \<noteq> 0 \<longrightarrow>
            (\<exists>w mg ph ps zs.
               calculate_laplace_transform m c k F0 omega max_freq num_points
                 = Inr (w, mg, ph, ps, zs)
               \<and> (m < 0 \<longrightarrow> length ps = 2
                     \<and> (\<forall>p \<in> set ps. of_real m * p\<^sup>2 + of_real c * p + of_real k = 0))
               \<and> (m = 0 \<and> c \<noteq> 0 \<longrightarrow> ps = [Complex (- k / c) 0])
               \<and> (m = 0 \<and> c = 0 \<longrightarrow> ps = [])))"
proof (intro conjI impI)
  assume "m = 0 \<and> c = 0 \<and> k = 0"
  then show "calculate_laplace_transform m c k F0 omega max_freq num_points = Inl ValueError"
    by (simp add: calculate_laplace_transform_def TransferFunction_zero)
next
  assume nz: "m \<noteq> 0 \<or> c \<noteq> 0 \<or> k \<noteq> 0"
  then obtain sys where sys: "TransferFunction [1] [m, c, k] = Inr sys"
    using TransferFunction_ok[of m c k] by auto
  from assms obtain fs where
    fs: "np_logspace (Fin (- 2)) (np_log10 (Fin max_freq)) num_points = Inr fs"
    using np_logspace_ok by blast
  have "\<exists>ps. np_roots [m, c, k] = Inr ps"
    by (auto simp: np_roots_def Let_def)
  then obtain ps where ps: "np_roots [m, c, k] = Inr ps" by blast
  have a: "m < 0 \<longrightarrow> length ps = 2
             \<and> (\<forall>p \<in> set ps. of_real m * p\<^sup>2 + of_real c * p + of_real k = 0)"
    using np_roots_mass[of m c k] np_roots_are_roots[of m c k ps] ps by auto
  have b: "m = 0 \<and> c \<noteq> 0 \<longrightarrow> ps = [Complex (- k / c) 0]"
    using ps np_roots_massless[of c k] by (auto simp: zero_complex.code)
  have c: "m = 0 \<and> c = 0 \<longrightarrow> ps = []"
    using ps nz by (auto simp: np_roots_def Let_def)
  show "\<exists>w mg ph ps zs.
               calculate_laplace_transform m c k F0 omega max_freq num_points
                 = Inr (w, mg, ph, ps, zs)
               \<and> (m < 0 \<longrightarrow> length ps = 2
                     \<and> (\<forall>p \<in> set ps. of_real m * p\<^sup>2 + of_real c * p + of_real k = 0))
               \<and> (m = 0 \<and> c \<noteq> 0 \<longrightarrow> ps = [Complex (- k / c) 0])
               \<and> (m = 0 \<and> c = 0 \<longrightarrow> ps = [])"
    using analyze_unfold[OF sys ps fs] a b c by blast
qed

theorem analyze_nonpositive_mass_witness:
  "(- 2 :: real) \<le> 0 \<and> (0::int) \<le> 1000 \<and>
   (\<exists>w mg ph ps zs.
      calculate_laplace_transform (- 2) 1 0 10 5 100 1000 = Inr (w, mg, ph, ps, zs)
      \<and> length ps = 2
      \<and> (\<forall>p \<in> set ps. of_real (- 2) * p\<^sup>2 + of_real 1 * p + of_real 0 = 0))"
  using analyze_nonpositive_mass[of "- 2" 1000 1 0 10 5 100] by simp

subsection \<open>Magnitude and phase\<close>



subsection \<open>Frequency sweep\<close>

text \<open>
  Claim C6 as stated fails for \<open>0 < max_freq \<le> 0.01\<close>: with \<open>max_freq = 0.001\<close> and two
  samples the frequencies are \<open>0.01\<close> and \<open>0.001\<close>, in descending order.
\<close>

theorem frequencies_descending_counterexample:
  "frequencies_of (calculate_laplace_transform 1 2 10 10 5 (1 / 1000) 2)
     = Some [Fin (1 / 100), Fin (1 / 1000)]
   \<and> \<not> fl_lt (Fin (1 / 100)) (Fin (1 / 1000))"
proof -
  have "(10::real) powr (- 2) = 1 / 100"
    by (simp add: powr_minus_divide)
  moreover have "np_logspace (Fin (- 2)) (np_log10 (Fin (1 / 1000))) 2 =
     Inr (map (\<lambda>i. Fin (if i = nat 2 - 1 then 1 / 1000
                         else 10 powr (of_nat i * ((log 10 (1 / 1000) + 2) / of_int (2 - 1)) - 2)))
              [0..<nat 2])"
    by (rule np_logspace_fin) simp_all
  ultimately have "np_logspace (Fin (- 2)) (np_log10 (Fin (1 / 1000))) 2
           = Inr [Fin (1 / 100), Fin (1 / 1000)]"
    by (simp add: upt_rec)
  then show ?thesis
    using analyze_frequencies_of[of 1 2 10 "1 / 1000" 2 _ 10 5] by simp
qed

text \<open>
  Claim C6 as amended: for \<open>max_freq > 0.01\<close> and at least two samples the frequency
  array has \<open>num_points\<close> finite entries, starts at \<open>0.01\<close>, ends at \<open>max_freq\<close>, and each
  entry is the one before it times one common ratio greater than 1, so the array is
  strictly increasing and log-uniformly spaced.
\<close>

theorem frequencies_log_spaced:
  assumes "1 / 100 < max_freq" "2 \<le> num_points" "m \<noteq> 0 \<or> c \<noteq> 0 \<or> k \<noteq> 0"
  shows "\<exists>fs ratio.
           frequencies_of (calculate_laplace_transform m c k F0 omega max_freq num_points)
             = Some (map Fin fs)
           \<and> length fs = nat num_points
           \<and> fs ! 0 = 1 / 100
           \<and> fs ! (nat num_points - 1) = max_freq
           \<and> 1 < ratio
           \<and> (\<forall>i. i + 1 < nat num_points \<longrightarrow> fs ! (i + 1) = ratio * fs ! i)
           \<and> (\<forall>i. i + 1 < nat num_points \<longrightarrow> fs ! i < fs ! (i + 1))"
proof -
  define N where "N = nat num_points"
  define step where "step = (log 10 max_freq + 2) / of_int (num_points - 1)"
  define f where "f = (\<lambda>i. if i = N - 1 then max_freq else 10 powr (of_nat i * step - 2))"
  define fs where "fs = map f [0..<N]"
  have mf: "0 < max_freq" using assms(1) by simp
  have N: "2 \<le> N" "of_int (num_points - 1) = (of_nat (N - 1) :: real)"
    using assms(2) by (simp_all add: N_def)
  have "log 10 (1 / 100) < log 10 max_freq"
    using assms(1) mf by (subst log_less_cancel_iff) simp_all
  moreover have "log 10 (1 / 100) = - 2"
    using log_powr_cancel[of 10 2] by (simp add: log_divide)
  ultimately have "0 < log 10 max_freq + 2" by simp
  then have step: "0 < step" using assms(2) by (simp add: step_def)
  have last: "of_nat (N - 1) * step - 2 = log 10 max_freq"
    using N by (simp add: step_def)
  have f_eq: "f i = 10 powr (of_nat i * step - 2)" if "i < N" for i
  proof (cases "i = N - 1")
    case True
    then show ?thesis using last mf by (simp add: f_def)
  next
    case False then show ?thesis by (simp add: f_def)
  qed
  have ratio: "f (i + 1) = 10 powr step * f i" if "i + 1 < N" for i
  proof -
    have "f (i + 1) = 10 powr (of_nat (i + 1) * step - 2)" using that f_eq by simp
    also have "\<dots> = 10 powr (step + (of_nat i * step - 2))" by (simp add: algebra_simps)
    also have "\<dots> = 10 powr step * 10 powr (of_nat i * step - 2)" by (simp only: powr_add)
    also have "\<dots> = 10 powr step * f i" using that f_eq by simp
    finally show ?thesis .
  qed
  have gt1: "1 < (10::real) powr step" using step by simp
  have pos: "0 < f i" if "i < N" for i using f_eq[OF that] by simp
  have incr: "f i < f (i + 1)" if "i + 1 < N" for i
  proof -
    have "f i * 1 < f i * 10 powr step"
      using pos[of i] that gt1 by (simp only: mult_less_cancel_left_pos) 
    then show ?thesis using ratio[OF that] by (simp add: mult.commute)
  qed
  have fr: "frequencies_of (calculate_laplace_transform m c k F0 omega max_freq num_points)
             = Some (map Fin fs)"
    using analyze_frequencies_of[OF assms(3), of max_freq num_points "map Fin fs" F0 omega]
          np_logspace_fin[OF assms(2) mf]
    by (simp add: fs_def f_def N_def step_def o_def)
  have f0: "fs ! 0 = 1 / 100"
    using N f_eq[of 0] by (simp add: fs_def powr_minus_divide)
  have fl: "fs ! (N - 1) = max_freq" using N by (simp add: fs_def f_def)
  have r: "\<forall>i. i + 1 < N \<longrightarrow> fs ! (i + 1) = 10 powr step * fs ! i"
    using ratio by (simp add: fs_def)
  have s: "\<forall>i. i + 1 < N \<longrightarrow> fs ! i < fs ! (i + 1)"
    using incr by (simp add: fs_def)
  have len: "length fs = N" by (simp add: fs_def)
  show ?thesis
    using fr len f0 fl gt1 r s unfolding N_def by blast
qed

theorem frequencies_log_spaced_witness:
  "(1 / 100 :: real) < 100 \<and> (2::int) \<le> 1000 \<and>
   (1::real) \<noteq> 0 \<and>
   (\<exists>fs ratio.
      frequencies_of (calculate_laplace_transform 1 2 10 10 5 100 1000) = Some (map Fin fs)
      \<and> length fs = nat 1000
      \<and> fs ! 0 = 1 / 100
      \<and> fs ! (nat 1000 - 1) = 100
      \<and> 1 < ratio
      \<and> (\<forall>i. i + 1 < nat 1000 \<longrightarrow> fs ! (i + 1) = ratio * fs ! i)
      \<and> (\<forall>i. i + 1 < nat 1000 \<longrightarrow> fs ! i < fs ! (i + 1)))"
  using frequencies_log_spaced[of 100 1000 1 2 10 10 5] by simp

subsection \<open>Values that are not finite\<close>




subsection \<open>No check of mass or duration\<close>

text \<open>
  Claim C1 as stated fails: run with the reference integrator, the solver returns three
  arrays of 1000 samples for \<open>m = -1\<close> (with \<open>t_max = 1\<close>) and for \<open>t_max = -1\<close> (with
  \<open>m = 1\<close>); no error is signalled.
\<close>

theorem solve_no_validation_counterexample:
  "lengths_of (solve_damped_oscillator euler_ivp (- 1) 0 1 0 1 1 0 1 1000)
     = Some (1000, 1000, 1000)
   \<and> lengths_of (solve_damped_oscillator euler_ivp 1 0 1 0 1 1 0 (- 1) 1000)
     = Some (1000, 1000, 1000)"
  using solve_with_euler_lengths[of 1000 "- 1" 0 1 0 1 1 0 1]
        solve_with_euler_lengths[of 1000 1 0 1 0 1 1 0 "- 1"] by simp

text \<open>
  Claim C1 as amended: the solver checks neither the mass nor the duration. Whatever
  their values, a negative sample count ends in numpy's ValueError, and for every other
  sample count the solver builds the time grid of \<open>num_points\<close> entries and calls the
  integrator on it with the parameters as given; an exception of the integrator is
  passed on; when the integrator returns, the solver returns its \<open>t\<close> and the first two
  rows of its \<open>y\<close>, and raises IndexError when \<open>y\<close> has fewer than two rows.
\<close>

theorem solve_no_parameter_check:
  "(num_points < 0 \<longrightarrow>
      solve_damped_oscillator ivp m c k F0 omega x0 v0 t_max num_points = Inl ValueError)
   \<and> (0 \<le> num_points \<longrightarrow>
        (\<exists>t_eval.
           np_linspace (Fin 0) (Fin t_max) num_points = Inr t_eval
           \<and> length t_eval = nat num_points
           \<and> solve_damped_oscillator ivp m c k F0 omega x0 v0 t_max num_points =
               (case ivp (\<lambda>t y. damped_oscillator_ode t y m c k F0 omega) (0, t_max)
                         [Fin x0, Fin v0] t_eval
                         \<lparr>ode_method = ''RK45'', rtol = 1 / 10 ^ 8, atol = 1 / 10 ^ 10,
                          dense_output = True\<rparr> of
                  Inl e \<Rightarrow> Inl e
                | Inr sol \<Rightarrow>
                    (case sol_y sol of
                       x # v # rest \<Rightarrow> Inr (sol_t sol, x, v)
                     | _ \<Rightarrow> Inl IndexError))))"
proof (intro conjI impI)
  assume "num_points < 0"
  then show "solve_damped_oscillator ivp m c k F0 omega x0 v0 t_max num_points
               = Inl ValueError"
    by (simp add: solve_damped_oscillator_def np_linspace_def)
next
  assume "0 \<le> num_points"
  then obtain te where te: "np_linspace (Fin 0) (Fin t_max) num_points = Inr te"
    using np_linspace_ok by blast
  have "solve_damped_oscillator ivp m c k F0 omega x0 v0 t_max num_points =
               (case ivp (\<lambda>t y. damped_oscillator_ode t y m c k F0 omega) (0, t_max)
                         [Fin x0, Fin v0] te
                         \<lparr>ode_method = ''RK45'', rtol = 1 / 10 ^ 8, atol = 1 / 10 ^ 10,
                          dense_output = True\<rparr> of
                  Inl e \<Rightarrow> Inl e
                | Inr sol \<Rightarrow>
                    (case sol_y sol of
                       x # v # rest \<Rightarrow> Inr (sol_t sol, x, v)
                     | _ \<Rightarrow> Inl IndexError))"
    using te by (simp add: solve_damped_oscillator_def row_def split: sum.splits list.splits)
  then show "\<exists>t_eval.
           np_linspace (Fin 0) (Fin t_max) num_points = Inr t_eval
           \<and> length t_eval = nat num_points
           \<and> solve_damped_oscillator ivp m c k F0 omega x0 v0 t_max num_points =
               (case ivp (\<lambda>t y. damped_oscillator_ode t y m c k F0 omega) (0, t_max)
                         [Fin x0, Fin v0] t_eval
                         \<lparr>ode_method = ''RK45'', rtol = 1 / 10 ^ 8, atol = 1 / 10 ^ 10,
                          dense_output = True\<rparr> of
                  Inl e \<Rightarrow> Inl e
                | Inr sol \<Rightarrow>
                    (case sol_y sol of
                       x # v # rest \<Rightarrow> Inr (sol_t sol, x, v)
                     | _ \<Rightarrow> Inl IndexError))"
    using te np_linspace_length[OF te] by blast
qed

theorem solve_no_parameter_check_witness:
  "solve_damped_oscillator euler_ivp (- 2) 0 1 0 1 1 0 (- 3) (- 1) = Inl ValueError
   \<and> (\<exists>t_eval x v.
      np_linspace (Fin 0) (Fin (- 3)) 1000 = Inr t_eval \<and> length t_eval = 1000
      \<and> euler_ivp (\<lambda>t y. damped_oscillator_ode t y (- 2) 0 1 0 1) (0, - 3) [Fin 1, Fin 0]
           t_eval \<lparr>ode_method = ''RK45'', rtol = 1 / 10 ^ 8, atol = 1 / 10 ^ 10,
                    dense_output = True\<rparr>
          = Inr \<lparr>sol_t = t_eval, sol_y = [x, v], sol_status = 0\<rparr>
      \<and> solve_damped_oscillator euler_ivp (- 2) 0 1 0 1 1 0 (- 3) 1000 = Inr (t_eval, x, v))"
proof -
  have neg: "solve_damped_oscillator euler_ivp (- 2) 0 1 0 1 1 0 (- 3) (- 1) = Inl ValueError"
    using solve_no_parameter_check[of "- 1" euler_ivp "- 2" 0 1 0 1 1 0 "- 3"] by simp
  from solve_no_parameter_check[of 1000 euler_ivp "- 2" 0 1 0 1 1 0 "- 3"]
  obtain te where te: "np_linspace (Fin 0) (Fin (- 3)) 1000 = Inr te" "length te = nat 1000"
    and s: "solve_damped_oscillator euler_ivp (- 2) 0 1 0 1 1 0 (- 3) 1000 =
               (case euler_ivp (\<lambda>t y. damped_oscillator_ode t y (- 2) 0 1 0 1) (0, - 3)
                         [Fin 1, Fin 0] te
                         \<lparr>ode_method = ''RK45'', rtol = 1 / 10 ^ 8, atol = 1 / 10 ^ 10,
                          dense_output = True\<rparr> of
                  Inl e \<Rightarrow> Inl e
                | Inr sol \<Rightarrow>
                    (case sol_y sol of
                       x # v # rest \<Rightarrow> Inr (sol_t sol, x, v)
                     | _ \<Rightarrow> Inl IndexError))"
    by auto
  from euler_call_result[OF te(1), of "- 2" 0 1 0 1 1 0] obtain x v where
    e: "euler_ivp (\<lambda>t y. damped_oscillator_ode t y (- 2) 0 1 0 1) (0, - 3) [Fin 1, Fin 0]
           te \<lparr>ode_method = ''RK45'', rtol = 1 / 10 ^ 8, atol = 1 / 10 ^ 10,
                    dense_output = True\<rparr>
          = Inr \<lparr>sol_t = te, sol_y = [x, v], sol_status = 0\<rparr>" by blast
  have "solve_damped_oscillator euler_ivp (- 2) 0 1 0 1 1 0 (- 3) 1000 = Inr (te, x, v)"
    using s e by simp
  then show ?thesis using neg te e by auto
qed

subsection \<open>The time grid\<close>




end
